theory Spec2Isabelle
  imports Complex_Main "HOL-Library.Word"
begin

section \<open>Python values\<close>

text \<open>
  The view in \<^verbatim>\<open>collecto.py\<close> works on three kinds of data: text, raw bytes and the
  values that \<^verbatim>\<open>r.json()\<close> hands back. Text is a \<open>string\<close>; one \<open>char\<close> stands for one
  code point below 256. Raw bytes are lists of 8-bit words. Decoded JSON is the datatype
  \<open>json\<close>; \<open>JNull\<close> is Python's \<^verbatim>\<open>None\<close>, a dictionary is the list of its items in
  insertion order, and JSON numbers are the integers. Lengths on the page are Python
  floats; they have a section of their own below.
\<close>

type_synonym bytes = "8 word list"

datatype json =
  JNull
  | JBool bool
  | JInt int
  | JStr string
  | JArr "json list"
  | JObj "(string \<times> json) list"

text \<open>Exceptions, each with the text that \<^verbatim>\<open>str(e)\<close> gives.\<close>

datatype exn =
  HTTPError string
  | ConnectionError string
  | Timeout string
  | JSONDecodeError string
  | AttributeError string
  | TypeError string
  | ValueError string
  | ZeroDivisionError string
  | OverflowError string
  | BadHeaderError string
  | LayoutError string
  | OtherError string

fun exn_msg :: "exn \<Rightarrow> string" where
  "exn_msg (HTTPError m) = m"
| "exn_msg (ConnectionError m) = m"
| "exn_msg (Timeout m) = m"
| "exn_msg (JSONDecodeError m) = m"
| "exn_msg (AttributeError m) = m"
| "exn_msg (TypeError m) = m"
| "exn_msg (ValueError m) = m"
| "exn_msg (ZeroDivisionError m) = m"
| "exn_msg (OverflowError m) = m"
| "exn_msg (BadHeaderError m) = m"
| "exn_msg (LayoutError m) = m"
| "exn_msg (OtherError m) = m"

text \<open>Truth value testing, as \<^verbatim>\<open>if x:\<close> and \<^verbatim>\<open>x or y\<close> do it.\<close>

fun truthy :: "json \<Rightarrow> bool" where
  "truthy JNull = False"
| "truthy (JBool b) = b"
| "truthy (JInt n) = (n \<noteq> 0)"
| "truthy (JStr s) = (s \<noteq> [])"
| "truthy (JArr xs) = (xs \<noteq> [])"
| "truthy (JObj kvs) = (kvs \<noteq> [])"

definition py_or :: "json \<Rightarrow> json \<Rightarrow> json" where
  "py_or a b = (if truthy a then a else b)"

fun type_name :: "json \<Rightarrow> string" where
  "type_name JNull = ''NoneType''"
| "type_name (JBool b) = ''bool''"
| "type_name (JInt n) = ''int''"
| "type_name (JStr s) = ''str''"
| "type_name (JArr xs) = ''list''"
| "type_name (JObj kvs) = ''dict''"

definition quote :: "string \<Rightarrow> string" where
  "quote s = [CHR 0x27] @ s @ [CHR 0x27]"

definition no_attribute :: "json \<Rightarrow> string \<Rightarrow> exn" where
  "no_attribute v a =
     AttributeError (quote (type_name v) @ '' object has no attribute '' @ quote a)"

text \<open>\<^verbatim>\<open>d.get(k)\<close> and \<^verbatim>\<open>d.get(k, default)\<close> on a dictionary.\<close>

definition dict_get_default :: "(string \<times> json) list \<Rightarrow> string \<Rightarrow> json \<Rightarrow> json" where
  "dict_get_default kvs k d = (case map_of kvs k of None \<Rightarrow> d | Some v \<Rightarrow> v)"

definition dict_get :: "(string \<times> json) list \<Rightarrow> string \<Rightarrow> json" where
  "dict_get kvs k = dict_get_default kvs k JNull"

text \<open>
  The same method call on a value that may not be a dictionary: every other JSON value
  has no \<^verbatim>\<open>get\<close> attribute.
\<close>

definition py_get_default :: "json \<Rightarrow> string \<Rightarrow> json \<Rightarrow> exn + json" where
  "py_get_default v k d =
     (case v of JObj kvs \<Rightarrow> Inr (dict_get_default kvs k d) | _ \<Rightarrow> Inl (no_attribute v ''get''))"

definition py_get :: "json \<Rightarrow> string \<Rightarrow> exn + json" where
  "py_get v k = py_get_default v k JNull"

text \<open>What a \<^verbatim>\<open>for\<close> loop iterates over.\<close>

definition py_iter :: "json \<Rightarrow> exn + json list" where
  "py_iter v =
     (case v of
        JArr xs \<Rightarrow> Inr xs
      | JStr s \<Rightarrow> Inr (map (\<lambda>c. JStr [c]) s)
      | JObj kvs \<Rightarrow> Inr (map (\<lambda>kv. JStr (fst kv)) kvs)
      | _ \<Rightarrow> Inl (TypeError (quote (type_name v) @ '' object is not iterable'')))"

subsection \<open>Text: decimal numerals, \<^verbatim>\<open>str()\<close> and \<^verbatim>\<open>strip()\<close>\<close>

definition digit_char :: "nat \<Rightarrow> char" where
  "digit_char d = ''0123456789'' ! d"

fun dec_nat :: "nat \<Rightarrow> string" where
  "dec_nat n = (if n < 10 then [digit_char n] else dec_nat (n div 10) @ [digit_char (n mod 10)])"

declare dec_nat.simps [simp del]

definition dec_int :: "int \<Rightarrow> string" where
  "dec_int i = (if i < 0 then CHR ''-'' # dec_nat (nat (- i)) else dec_nat (nat i))"

text \<open>
  \<^verbatim>\<open>str(v)\<close>, which is also what an f-string and \<^verbatim>\<open>str.format\<close> insert. The text of a
  list or a dictionary is produced by the interpreter's \<^verbatim>\<open>repr\<close>; it is the parameter
  \<open>repr\<close>.
\<close>

fun py_str :: "(json \<Rightarrow> string) \<Rightarrow> json \<Rightarrow> string" where
  "py_str repr JNull = ''None''"
| "py_str repr (JBool b) = (if b then ''True'' else ''False'')"
| "py_str repr (JInt n) = dec_int n"
| "py_str repr (JStr s) = s"
| "py_str repr (JArr xs) = repr (JArr xs)"
| "py_str repr (JObj kvs) = repr (JObj kvs)"

text \<open>
  The characters \<^verbatim>\<open>str.strip()\<close> removes: the code points below 256 for which
  \<^verbatim>\<open>str.isspace()\<close> holds.
\<close>

definition is_space :: "char \<Rightarrow> bool" where
  "is_space c \<longleftrightarrow>
     c \<in> set [CHR 0x09, CHR 0x0A, CHR 0x0B, CHR 0x0C, CHR 0x0D, CHR 0x1C, CHR 0x1D,
              CHR 0x1E, CHR 0x1F, CHR 0x20, CHR 0x85, CHR 0xA0]"

definition lstrip :: "string \<Rightarrow> string" where
  "lstrip s = dropWhile is_space s"

definition rstrip :: "string \<Rightarrow> string" where
  "rstrip s = rev (dropWhile is_space (rev s))"

definition strip :: "string \<Rightarrow> string" where
  "strip s = rstrip (lstrip s)"

section \<open>Python floats\<close>

text \<open>
  A Python float is an IEEE 754 double. A finite double is \<open>Fin m e\<close>, the number
  \<open>m * 2 ^ e\<close>, kept in lowest terms (\<open>m\<close> odd, or \<open>m = 0\<close> and \<open>e = 0\<close>), so that equal
  numbers are equal terms; the sign of a zero is not recorded. Every operation computes the
  exact result as a fraction and rounds it once, to the nearest double, ties to the even
  mantissa, with gradual underflow below \<open>2 ^ -1022\<close> and overflow to infinity.
\<close>

datatype pyfloat = Fin int int | PInf | NInf | NaN

function bitlen :: "int \<Rightarrow> nat" where
  "bitlen n = (if n \<le> 0 then 0 else Suc (bitlen (n div 2)))"
  by pat_completeness auto
termination
  by (relation "measure nat") auto

declare bitlen.simps [simp del]

function lowest_terms :: "int \<Rightarrow> int \<Rightarrow> int \<times> int" where
  "lowest_terms m e =
     (if m \<le> 0 then (0, 0)
      else if even m then lowest_terms (m div 2) (e + 1)
      else (m, e))"
  by pat_completeness auto
termination
  by (relation "measure (\<lambda>(m, e). nat m)") auto

declare lowest_terms.simps [simp del]

text \<open>The integer nearest to \<open>a / b\<close>, a tie going to the even one.\<close>

definition rne_div :: "int \<Rightarrow> int \<Rightarrow> int" where
  "rne_div a b =
     (let q = a div b; r = a mod b
      in if 2 * r < b then q
         else if b < 2 * r then q + 1
         else if even q then q else q + 1)"

text \<open>\<open>2 ^ 53 \<le> (a / b) * 2 ^ k\<close>, in integers.\<close>

definition scaled_ge :: "int \<Rightarrow> int \<Rightarrow> int \<Rightarrow> bool" where
  "scaled_ge a b k =
     (if 0 \<le> k then b * 2 ^ 53 \<le> a * 2 ^ nat k else b * 2 ^ nat (53 - k) \<le> a)"

text \<open>
  Rounding the positive number \<open>(a / b) * 2 ^ e\<close>. The shift \<open>k\<close> is chosen so that
  \<open>(a / b) * 2 ^ k\<close> has 53 bits before the point, or fewer when the result is subnormal;
  this number is rounded to the integer \<open>n\<close>, and the result is \<open>n * 2 ^ (e - k)\<close>. \<open>None\<close>
  is overflow.
\<close>

definition round_shift :: "int \<Rightarrow> int \<Rightarrow> int \<Rightarrow> int" where
  "round_shift a b e =
     (let k0 = 53 + int (bitlen b) - int (bitlen a);
          k1 = (if scaled_ge a b k0 then k0 - 1 else k0)
      in if e - k1 < - 1074 then e + 1074 else k1)"

definition round_mantissa :: "int \<Rightarrow> int \<Rightarrow> int \<Rightarrow> int" where
  "round_mantissa a b k =
     (if 0 \<le> k then rne_div (a * 2 ^ nat k) b else rne_div a (b * 2 ^ nat (- k)))"

definition round_mag :: "int \<Rightarrow> int \<Rightarrow> int \<Rightarrow> (int \<times> int) option" where
  "round_mag a b e =
     (if a \<le> 0 then Some (0, 0)
      else
        let k = round_shift a b e;
            n = round_mantissa a b k
        in if 971 < e - k \<or> (e - k = 971 \<and> 2 ^ 53 \<le> n) then None
           else Some (lowest_terms n (e - k)))"

text \<open>The double nearest to \<open>(p / q) * 2 ^ e\<close>, for \<open>q > 0\<close>.\<close>

definition round_rat :: "int \<Rightarrow> int \<Rightarrow> int \<Rightarrow> pyfloat" where
  "round_rat p q e =
     (case round_mag \<bar>p\<bar> q e of
        None \<Rightarrow> (if p < 0 then NInf else PInf)
      | Some (n, E) \<Rightarrow> Fin (if p < 0 then - n else n) E)"

text \<open>A decimal literal of the source, given as the fraction \<open>p / q\<close> it denotes.\<close>

definition flit :: "int \<Rightarrow> int \<Rightarrow> pyfloat" where
  "flit p q = round_rat p q 0"

text \<open>\<^verbatim>\<open>float(n)\<close> for an integer, also the conversion in \<^verbatim>\<open>n * x\<close>.\<close>

definition float_of_int :: "int \<Rightarrow> exn + pyfloat" where
  "float_of_int n =
     (case round_rat n 1 0 of
        Fin m e \<Rightarrow> Inr (Fin m e)
      | _ \<Rightarrow> Inl (OverflowError ''int too large to convert to float''))"

definition fsign :: "pyfloat \<Rightarrow> int" where
  "fsign x = (case x of Fin m e \<Rightarrow> sgn m | PInf \<Rightarrow> 1 | NInf \<Rightarrow> - 1 | NaN \<Rightarrow> 0)"

definition signed_inf :: "int \<Rightarrow> pyfloat" where
  "signed_inf s = (if s = 0 then NaN else if 0 < s then PInf else NInf)"

fun fmul :: "pyfloat \<Rightarrow> pyfloat \<Rightarrow> pyfloat" where
  "fmul (Fin m1 e1) (Fin m2 e2) = round_rat (m1 * m2) 1 (e1 + e2)"
| "fmul a b = (if a = NaN \<or> b = NaN then NaN else signed_inf (fsign a * fsign b))"

declare fmul.simps [simp del]

text \<open>The quotient by a divisor that is not zero.\<close>

fun fquot :: "pyfloat \<Rightarrow> pyfloat \<Rightarrow> pyfloat" where
  "fquot (Fin m1 e1) (Fin m2 e2) = round_rat (m1 * sgn m2) \<bar>m2\<bar> (e1 - e2)"
| "fquot (Fin m e) b = (if b = NaN then NaN else Fin 0 0)"
| "fquot a (Fin m e) = (if a = NaN then NaN else signed_inf (fsign a * sgn m))"
| "fquot a b = NaN"

declare fquot.simps [simp del]

text \<open>\<^verbatim>\<open>a / b\<close>\<close>

definition fdiv :: "pyfloat \<Rightarrow> pyfloat \<Rightarrow> exn + pyfloat" where
  "fdiv a b =
     (if b = Fin 0 0 then Inl (ZeroDivisionError ''float division by zero'')
      else Inr (fquot a b))"

fun fsub :: "pyfloat \<Rightarrow> pyfloat \<Rightarrow> pyfloat" where
  "fsub (Fin m1 e1) (Fin m2 e2) =
     (let e = min e1 e2
      in round_rat (m1 * 2 ^ nat (e1 - e) - m2 * 2 ^ nat (e2 - e)) 1 e)"
| "fsub NaN b = NaN"
| "fsub a NaN = NaN"
| "fsub PInf PInf = NaN"
| "fsub NInf NInf = NaN"
| "fsub PInf b = PInf"
| "fsub NInf b = NInf"
| "fsub a PInf = NInf"
| "fsub a NInf = PInf"

declare fsub.simps [simp del]

text \<open>Truth value of a float, \<^verbatim>\<open>x > 0\<close> and \<^verbatim>\<open>x < y\<close>.\<close>

definition ftruthy :: "pyfloat \<Rightarrow> bool" where
  "ftruthy x = (x \<noteq> Fin 0 0)"

definition fpos :: "pyfloat \<Rightarrow> bool" where
  "fpos x = (case x of Fin m e \<Rightarrow> 0 < m | PInf \<Rightarrow> True | _ \<Rightarrow> False)"

fun fless :: "pyfloat \<Rightarrow> pyfloat \<Rightarrow> bool" where
  "fless (Fin m1 e1) (Fin m2 e2) =
     (let e = min e1 e2 in m1 * 2 ^ nat (e1 - e) < m2 * 2 ^ nat (e2 - e))"
| "fless (Fin m e) PInf = True"
| "fless NInf (Fin m e) = True"
| "fless NInf PInf = True"
| "fless a b = False"

declare fless.simps [simp del]


section \<open>The outside world\<close>

text \<open>
  Everything the view calls that is not its own code: the \<^verbatim>\<open>requests\<close> library and the
  network behind it, and ReportLab.
\<close>

record response =
  status_code :: nat
  reason :: string
  url :: string
  content :: bytes

text \<open>\<^verbatim>\<open>Response.raise_for_status()\<close>: an \<^verbatim>\<open>HTTPError\<close> for a 4xx or 5xx status.\<close>

definition raise_for_status :: "response \<Rightarrow> exn option" where
  "raise_for_status r =
     (if 400 \<le> status_code r \<and> status_code r < 500 then
        Some (HTTPError (dec_nat (status_code r) @ '' Client Error: '' @ reason r
                         @ '' for url: '' @ url r))
      else if 500 \<le> status_code r \<and> status_code r < 600 then
        Some (HTTPError (dec_nat (status_code r) @ '' Server Error: '' @ reason r
                         @ '' for url: '' @ url r))
      else None)"

text \<open>The flowables the story is made of, and the document template.\<close>

datatype para_style = TitleBig | H2 | Body

datatype table_cmd =
  BACKGROUND string
  | BOX int string
  | VALIGN string
  | ALIGN string
  | TEXTCOLOR string
  | FONTSIZE int

datatype flowable =
  Paragraph string para_style
  | Spacer int int
  | Image bytes pyfloat pyfloat
  | Table "string list list" "pyfloat list" "pyfloat list" "table_cmd list"
  | KeepTogether "flowable list"

record doc_template =
  pagesize :: "pyfloat \<times> pyfloat"
  leftMargin :: pyfloat
  rightMargin :: pyfloat
  topMargin :: pyfloat
  bottomMargin :: pyfloat
  title :: string

text \<open>
  \<open>Paragraph_init\<close> is the constructor \<^verbatim>\<open>Paragraph(text, style)\<close>, which parses the text as
  markup and may raise; \<open>Image_init\<close> is the constructor \<^verbatim>\<open>Image(stream, width, height)\<close>;
  \<open>doc_build\<close> is \<^verbatim>\<open>doc.build(story)\<close> followed by \<^verbatim>\<open>buffer.getvalue()\<close>.
\<close>

record env =
  requests_get :: "string \<Rightarrow> (string \<times> string) list \<Rightarrow> exn + response"
  response_json :: "response \<Rightarrow> exn + json"
  py_repr :: "json \<Rightarrow> string"
  ImageReader_getSize :: "bytes \<Rightarrow> exn + int \<times> int"
  Image_init :: "bytes \<Rightarrow> pyfloat \<Rightarrow> pyfloat \<Rightarrow> exn option"
  Paragraph_init :: "string \<Rightarrow> para_style \<Rightarrow> exn option"
  doc_build :: "doc_template \<Rightarrow> flowable list \<Rightarrow> exn + bytes"

section \<open>Configuration\<close>

definition SERVER_URL :: string where
  "SERVER_URL = ''http://localhost''"

definition WFS_URL :: string where
  "WFS_URL = ''https://data.mobility.brussels/geoserver/bm_public_transport/wfs''"

definition WMS_PRINT_URL :: "string \<Rightarrow> string \<Rightarrow> string" where
  "WMS_PRINT_URL server gid =
     server @ '':5555/''
     @ ''?SERVICE=WMS&VERSION=1.3.0&REQUEST=GetPrint''
     @ ''&MAP=/data/collecto.qgz&TEMPLATE=stoplayout''
     @ ''&FORMAT=png&CRS=EPSG:3812&DPI=50&ATLAS_PK='' @ gid"

text \<open>
  The units of \<^verbatim>\<open>reportlab.lib.units\<close> and the page size of \<^verbatim>\<open>reportlab.lib.pagesizes\<close>:
  \<^verbatim>\<open>inch = 72.0\<close>, \<^verbatim>\<open>cm = inch / 2.54\<close>, \<^verbatim>\<open>mm = cm * 0.1\<close>, \<^verbatim>\<open>A4 = (210*mm, 297*mm)\<close>.
\<close>

definition inch :: pyfloat where "inch = flit 72 1"
definition cm :: pyfloat where "cm = fquot inch (flit 254 100)"
definition mm :: pyfloat where "mm = fmul cm (flit 1 10)"
definition A4 :: "pyfloat \<times> pyfloat" where "A4 = (fmul (flit 210 1) mm, fmul (flit 297 1) mm)"

definition LEFT_RIGHT_MARGIN :: pyfloat where "LEFT_RIGHT_MARGIN = fmul (flit 2 1) cm"
definition TOP_BOTTOM_MARGIN :: pyfloat where "TOP_BOTTOM_MARGIN = fmul (flit 16 10) cm"
definition TITLE_FONT_SIZE :: int where "TITLE_FONT_SIZE = 20"
definition BODY_FONT_SIZE :: int where "BODY_FONT_SIZE = 11"
definition FIRST_IMAGE_WIDTH_RATIO :: pyfloat where "FIRST_IMAGE_WIDTH_RATIO = flit 1 1"
definition SECOND_IMAGE_WIDTH_RATIO :: pyfloat where "SECOND_IMAGE_WIDTH_RATIO = flit 66 100"
definition FIRST_IMAGE_PLACEHOLDER_HEIGHT :: pyfloat where
  "FIRST_IMAGE_PLACEHOLDER_HEIGHT = fmul (flit 8 1) cm"
definition SECOND_IMAGE_PLACEHOLDER_HEIGHT :: pyfloat where
  "SECOND_IMAGE_PLACEHOLDER_HEIGHT = fmul (flit 6 1) cm"

section \<open>Looking the stop up\<close>

definition wfs_params :: "(string \<times> string) list" where
  "wfs_params =
     [(''service'', ''wfs''), (''version'', ''1.1.0''), (''request'', ''GetFeature''),
      (''typeName'', ''bm_public_transport:Collecto_stops''), (''outputFormat'', ''json''),
      (''srsName'', ''EPSG:3812'')]"

text \<open>
  The query and the decoding of its answer: \<^verbatim>\<open>requests.get\<close>, \<^verbatim>\<open>raise_for_status\<close>,
  \<^verbatim>\<open>r.json()\<close> and the sequence \<^verbatim>\<open>data.get("features") or []\<close> the loop runs over.
\<close>

definition wfs_features :: "env \<Rightarrow> exn + json list" where
  "wfs_features env =
     (case requests_get env WFS_URL wfs_params of
        Inl e \<Rightarrow> Inl e
      | Inr r \<Rightarrow>
          (case raise_for_status r of
             Some e \<Rightarrow> Inl e
           | None \<Rightarrow>
               (case response_json env r of
                  Inl e \<Rightarrow> Inl e
                | Inr data \<Rightarrow>
                    (case py_get data ''features'' of
                       Inl e \<Rightarrow> Inl e
                     | Inr fs \<Rightarrow> py_iter (py_or fs (JArr []))))))"

text \<open>\<^verbatim>\<open>f.get("properties") or {}\<close>\<close>

definition feature_props :: "json \<Rightarrow> exn + json" where
  "feature_props f =
     (case py_get f ''properties'' of
        Inl e \<Rightarrow> Inl e
      | Inr p \<Rightarrow> Inr (py_or p (JObj [])))"

text \<open>The test of the loop body, for one feature.\<close>

definition code_matches :: "env \<Rightarrow> json \<Rightarrow> string \<Rightarrow> exn + bool" where
  "code_matches env f stop_code =
     (case feature_props f of
        Inl e \<Rightarrow> Inl e
      | Inr props \<Rightarrow>
          (case py_get_default props ''code_stop'' (JStr '''') of
             Inl e \<Rightarrow> Inl e
           | Inr c \<Rightarrow> Inr (strip (py_str (py_repr env) c) = strip stop_code)))"

fun scan_features :: "env \<Rightarrow> json list \<Rightarrow> string \<Rightarrow> exn + json option" where
  "scan_features env [] stop_code = Inr None"
| "scan_features env (f # fs) stop_code =
     (case code_matches env f stop_code of
        Inl e \<Rightarrow> Inl e
      | Inr True \<Rightarrow> Inr (Some f)
      | Inr False \<Rightarrow> scan_features env fs stop_code)"

text \<open>
  Functions that use the network return, next to their result, the URLs they requested,
  in order.
\<close>

definition fetch_collecto_feature_by_code ::
    "env \<Rightarrow> string \<Rightarrow> (exn + json option) \<times> string list" where
  "fetch_collecto_feature_by_code env stop_code =
     ((case wfs_features env of
         Inl e \<Rightarrow> Inl e
       | Inr fs \<Rightarrow> scan_features env fs stop_code),
      [WFS_URL])"

definition download_image :: "env \<Rightarrow> string \<Rightarrow> bytes option \<times> string list" where
  "download_image env u =
     ((case requests_get env u [] of
         Inl e \<Rightarrow> None
       | Inr res \<Rightarrow>
           (case raise_for_status res of
              Some e \<Rightarrow> None
            | None \<Rightarrow> Some (content res))),
      [u])"

section \<open>Composing the document\<close>

definition scaled_image_flowable ::
    "env \<Rightarrow> bytes \<Rightarrow> pyfloat \<Rightarrow> exn + flowable \<times> pyfloat \<times> pyfloat" where
  "scaled_image_flowable env img_bytes target_width_pts =
     (case ImageReader_getSize env img_bytes of
        Inl e \<Rightarrow> Inl e
      | Inr (iw, ih) \<Rightarrow>
          if iw = 0 \<or> ih = 0 then Inl (ValueError ''Invalid image dimensions (0 x 0)'')
          else
            (case (if ftruthy target_width_pts \<and> fpos target_width_pts
                   then Inr target_width_pts else float_of_int iw) of
               Inl e \<Rightarrow> Inl e
             | Inr w \<Rightarrow>
                 (case float_of_int iw of
                    Inl e \<Rightarrow> Inl e
                  | Inr fiw \<Rightarrow>
                      (case fdiv w fiw of
                         Inl e \<Rightarrow> Inl e
                       | Inr ratio \<Rightarrow>
                           (case float_of_int ih of
                              Inl e \<Rightarrow> Inl e
                            | Inr fih \<Rightarrow>
                                let h = fmul fih ratio
                                in (case Image_init env img_bytes w h of
                                      Some e \<Rightarrow> Inl e
                                    | None \<Rightarrow> Inr (Image img_bytes w h, w, h)))))))"

definition placeholder_box :: "pyfloat \<Rightarrow> pyfloat \<Rightarrow> string \<Rightarrow> flowable" where
  "placeholder_box width_pts height_pts label =
     Table [[label]] [width_pts] [height_pts]
       [BACKGROUND ''lightgrey'', BOX 1 ''grey'', VALIGN ''MIDDLE'', ALIGN ''CENTER'',
        TEXTCOLOR ''darkgray'', FONTSIZE 11]"

definition collecto_doc :: "env \<Rightarrow> (string \<times> json) list \<Rightarrow> doc_template" where
  "collecto_doc env props =
     \<lparr> pagesize = A4,
       leftMargin = LEFT_RIGHT_MARGIN,
       rightMargin = LEFT_RIGHT_MARGIN,
       topMargin = TOP_BOTTOM_MARGIN,
       bottomMargin = TOP_BOTTOM_MARGIN,
       title = ''Collecto '' @ py_str (py_repr env) (dict_get_default props ''code_stop'' (JStr '''')) \<rparr>"

definition usable_width :: "doc_template \<Rightarrow> pyfloat" where
  "usable_width doc = fsub (fsub (fst A4) (leftMargin doc)) (rightMargin doc)"

text \<open>\<^verbatim>\<open>Paragraph(text, style)\<close>: the flowable, or the exception of the markup parser.\<close>

definition new_paragraph :: "env \<Rightarrow> string \<Rightarrow> para_style \<Rightarrow> exn + flowable" where
  "new_paragraph env text style =
     (case Paragraph_init env text style of
        Some e \<Rightarrow> Inl e
      | None \<Rightarrow> Inr (Paragraph text style))"

text \<open>
  The two image sections of \<^verbatim>\<open>_build_pdf\<close>, each with its \<^verbatim>\<open>try\<close> and its two placeholder
  branches: what the section appends to the story.
\<close>

definition first_image_block :: "env \<Rightarrow> doc_template \<Rightarrow> bytes option \<Rightarrow> flowable" where
  "first_image_block env doc img1_bytes =
     (let img1_target_w = fmul (usable_width doc) FIRST_IMAGE_WIDTH_RATIO
      in case img1_bytes of
           None \<Rightarrow>
             placeholder_box img1_target_w FIRST_IMAGE_PLACEHOLDER_HEIGHT ''Map image unavailable''
         | Some b1 \<Rightarrow>
             if b1 \<noteq> [] then
               (case scaled_image_flowable env b1 img1_target_w of
                  Inr (img1_flow, w1, h1) \<Rightarrow> img1_flow
                | Inl e \<Rightarrow>
                    placeholder_box img1_target_w FIRST_IMAGE_PLACEHOLDER_HEIGHT
                      ''Map image unavailable'')
             else
               placeholder_box img1_target_w FIRST_IMAGE_PLACEHOLDER_HEIGHT
                 ''Map image unavailable'')"

definition second_image_block :: "env \<Rightarrow> doc_template \<Rightarrow> bytes option \<Rightarrow> flowable" where
  "second_image_block env doc img2_bytes =
     (let img2_target_w = fmul (usable_width doc) SECOND_IMAGE_WIDTH_RATIO
      in case img2_bytes of
           None \<Rightarrow>
             placeholder_box img2_target_w SECOND_IMAGE_PLACEHOLDER_HEIGHT ''Stop photo unavailable''
         | Some b2 \<Rightarrow>
             if b2 \<noteq> [] then
               (case scaled_image_flowable env b2 img2_target_w of
                  Inr (img2_flow, w2, h2) \<Rightarrow> KeepTogether [img2_flow]
                | Inl e \<Rightarrow>
                    placeholder_box img2_target_w SECOND_IMAGE_PLACEHOLDER_HEIGHT
                      ''Stop photo unavailable'')
             else
               placeholder_box img2_target_w SECOND_IMAGE_PLACEHOLDER_HEIGHT
                 ''Stop photo unavailable'')"

text \<open>
  The story: the list the source appends to, in the order of the appends. The four
  paragraphs are constructed in this order, and the first constructor that raises ends
  the function.
\<close>

definition build_story ::
    "env \<Rightarrow> (string \<times> json) list \<Rightarrow> bytes option \<Rightarrow> bytes option \<Rightarrow> exn + flowable list" where
  "build_story env props img1_bytes img2_bytes =
     (let doc = collecto_doc env props;
          field = (\<lambda>k. py_str (py_repr env) (dict_get_default props k (JStr '''')));
          code_stop = field ''code_stop''
      in case new_paragraph env (''COLLECTO '' @ code_stop) TitleBig of
           Inl e \<Rightarrow> Inl e
         | Inr title_par \<Rightarrow>
             let first_image = first_image_block env doc img1_bytes;
                 name_fr = field ''name_fr'';
                 name_nl = field ''name_nl''
             in case new_paragraph env (name_fr @ '' - '' @ name_nl) H2 of
                  Inl e \<Rightarrow> Inl e
                | Inr names_par \<Rightarrow>
                    let housenr = field ''housenr'';
                        road_fr = field ''road_fr'';
                        mu_fr = field ''mu_fr'';
                        road_nl = field ''road_nl'';
                        mu_nl = field ''mu_nl''
                    in case new_paragraph env
                              (''<b>Adresse :</b> '' @ housenr @ '', '' @ road_fr @ '' - '' @ mu_fr)
                              Body of
                         Inl e \<Rightarrow> Inl e
                       | Inr adresse_par \<Rightarrow>
                           (case new_paragraph env
                                   (''<b>Adres :</b> '' @ road_nl @ '' '' @ housenr @ '' - '' @ mu_nl)
                                   Body of
                              Inl e \<Rightarrow> Inl e
                            | Inr adres_par \<Rightarrow>
                                Inr [title_par,
                                     Spacer 1 6,
                                     first_image,
                                     Spacer 1 12,
                                     names_par,
                                     Spacer 1 6,
                                     adresse_par,
                                     Spacer 1 2,
                                     adres_par,
                                     Spacer 1 10,
                                     second_image_block env doc img2_bytes]))"

text \<open>
  \<^verbatim>\<open>_build_pdf\<close>: its first statement already calls \<^verbatim>\<open>props.get\<close>, which raises when
  \<^verbatim>\<open>props\<close> is not a dictionary; its last hands the story to \<^verbatim>\<open>doc.build\<close>, outside every
  \<^verbatim>\<open>try\<close>.
\<close>

definition build_pdf :: "env \<Rightarrow> json \<Rightarrow> bytes option \<Rightarrow> bytes option \<Rightarrow> exn + bytes" where
  "build_pdf env props img1_bytes img2_bytes =
     (case props of
        JObj kvs \<Rightarrow>
          (case build_story env kvs img1_bytes img2_bytes of
             Inl e \<Rightarrow> Inl e
           | Inr story \<Rightarrow> doc_build env (collecto_doc env kvs) story)
      | _ \<Rightarrow> Inl (no_attribute props ''get''))"

section \<open>The view\<close>

record request =
  request_method :: string

datatype http_response =
  HttpResponse bytes string string
  | HttpResponseNotFound string
  | HttpResponseServerError string
  | HttpResponseNotAllowed "string list"

text \<open>The two \<^verbatim>\<open>except\<close> clauses around the lookup.\<close>

definition wfs_error_response :: "exn \<Rightarrow> http_response" where
  "wfs_error_response e =
     (case e of
        HTTPError m \<Rightarrow> HttpResponseServerError (''WFS error: '' @ exn_msg e)
      | _ \<Rightarrow> HttpResponseServerError (''Could not query WFS: '' @ exn_msg e))"

definition not_found_response :: "string \<Rightarrow> http_response" where
  "not_found_response stop =
     HttpResponseNotFound
       (''Collecto stop with code_stop='' @ quote stop @ '' not found in the dataset.'')"

text \<open>
  Setting a header of a Django response, \<^verbatim>\<open>response[name] = value\<close>: a value with a line
  feed or a carriage return is refused with \<^verbatim>\<open>BadHeaderError\<close>.
\<close>

definition bad_header :: "string \<Rightarrow> bool" where
  "bad_header v \<longleftrightarrow> CHR 0x0A \<in> set v \<or> CHR 0x0D \<in> set v"

definition content_disposition :: "string \<Rightarrow> string" where
  "content_disposition filename = ''inline; filename='' @ [CHR 0x22] @ filename @ [CHR 0x22]"

definition set_content_disposition ::
    "env \<Rightarrow> bytes \<Rightarrow> string \<Rightarrow> exn + http_response" where
  "set_content_disposition env pdf_bytes v =
     (if bad_header v then
        Inl (BadHeaderError
               (''Header values can'' @ [CHR 0x27] @ ''t contain newlines (got ''
                @ py_repr env (JStr v) @ '')''))
      else Inr (HttpResponse pdf_bytes ''application/pdf'' v))"

text \<open>
  Steps 2 and 3 of the view, for the feature that was found. Only the call of
  \<^verbatim>\<open>_build_pdf\<close> stands in a \<^verbatim>\<open>try\<close>; an exception of any other statement leaves the view.
\<close>

definition render_feature ::
    "env \<Rightarrow> string \<Rightarrow> json \<Rightarrow> (exn + http_response) \<times> string list" where
  "render_feature env stop feature =
     (case feature_props feature of
        Inl e \<Rightarrow> (Inl e, [])
      | Inr props \<Rightarrow>
          (case py_get props ''gid'' of
             Inl e \<Rightarrow> (Inl e, [])
           | Inr gid \<Rightarrow>
               (case py_get props ''image_stop'' of
                  Inl e \<Rightarrow> (Inl e, [])
                | Inr image_stop \<Rightarrow>
                    let (img1_bytes, t1) =
                          (if gid \<noteq> JNull
                           then download_image env
                                  (WMS_PRINT_URL SERVER_URL (py_str (py_repr env) gid))
                           else (None, []));
                        (img2_bytes, t2) =
                          (if truthy image_stop
                           then download_image env
                                  (''https://data.mobility.brussels/media/''
                                   @ py_str (py_repr env) image_stop)
                           else (None, []))
                    in (case build_pdf env props img1_bytes img2_bytes of
                          Inl e \<Rightarrow>
                            (Inr (HttpResponseServerError
                                    (''Failed to generate PDF: '' @ exn_msg e)), t1 @ t2)
                        | Inr pdf_bytes \<Rightarrow>
                            (case py_get_default props ''code_stop'' (JStr stop) of
                               Inl e \<Rightarrow> (Inl e, t1 @ t2)
                             | Inr c \<Rightarrow>
                                 (set_content_disposition env pdf_bytes
                                    (content_disposition
                                       (''collecto_'' @ py_str (py_repr env) c @ ''.pdf'')),
                                  t1 @ t2))))))"

text \<open>
  \<^verbatim>\<open>info\<close>, with its \<^verbatim>\<open>require_GET\<close> decorator. The result is the response (or the
  exception that leaves the view) and the URLs requested.
\<close>

definition info :: "env \<Rightarrow> request \<Rightarrow> string \<Rightarrow> (exn + http_response) \<times> string list" where
  "info env request stop =
     (if request_method request \<noteq> ''GET'' then (Inr (HttpResponseNotAllowed [''GET'']), [])
      else
        let (result, t0) = fetch_collecto_feature_by_code env stop
        in (case result of
              Inl e \<Rightarrow> (Inr (wfs_error_response e), t0)
            | Inr None \<Rightarrow> (Inr (not_found_response stop), t0)
            | Inr (Some feature) \<Rightarrow>
                if \<not> truthy feature then (Inr (not_found_response stop), t0)
                else
                  let (outcome, t) = render_feature env stop feature
                  in (outcome, t0 @ t)))"

section \<open>Reading a story\<close>

text \<open>
  An image buffer whose intrinsic size cannot be read: the reader raises, or it reports a
  zero width or height. A buffer is unusable when it is absent, empty or of that kind.
\<close>

definition undecodable :: "env \<Rightarrow> bytes \<Rightarrow> bool" where
  "undecodable env b =
     (case ImageReader_getSize env b of Inl e \<Rightarrow> True | Inr (iw, ih) \<Rightarrow> iw = 0 \<or> ih = 0)"

definition unusable :: "env \<Rightarrow> bytes option \<Rightarrow> bool" where
  "unusable env img = (case img of None \<Rightarrow> True | Some b \<Rightarrow> b = [] \<or> undecodable env b)"

text \<open>Placeholder boxes are the tables of a story; images may sit inside a \<^verbatim>\<open>KeepTogether\<close>.\<close>

fun is_placeholder :: "flowable \<Rightarrow> bool" where
  "is_placeholder (Table cells widths heights cmds) = True"
| "is_placeholder _ = False"

fun contains_image :: "flowable \<Rightarrow> bool" where
  "contains_image (Image b w h) = True"
| "contains_image (KeepTogether fs) = list_ex contains_image fs"
| "contains_image _ = False"

text \<open>An image, bare or kept together, that is higher than the page of the template.\<close>

fun higher_than_page :: "doc_template \<Rightarrow> flowable \<Rightarrow> bool" where
  "higher_than_page d (Image b w h) = fless (snd (pagesize d)) h"
| "higher_than_page d (KeepTogether fs) = list_ex (higher_than_page d) fs"
| "higher_than_page d f = False"

section \<open>Sample worlds\<close>

text \<open>
  Concrete values for the examples below: a response with status 200, a world given by
  what the network answers, what the decoded body is and what sizes the image reader
  reports, a feature with a code and a name, and a feature collection. In the sample
  world every paragraph parses and every story is rendered.
\<close>

definition ok_response :: "bytes \<Rightarrow> response" where
  "ok_response body = \<lparr> status_code = 200, reason = ''OK'', url = '''', content = body \<rparr>"

definition sample_env ::
    "(string \<Rightarrow> exn + response) \<Rightarrow> (exn + json) \<Rightarrow> (bytes \<Rightarrow> exn + int \<times> int) \<Rightarrow> env" where
  "sample_env net body sizes =
     \<lparr> requests_get = (\<lambda>u ps. net u),
       response_json = (\<lambda>r. body),
       py_repr = (\<lambda>v. ''...''),
       ImageReader_getSize = sizes,
       Image_init = (\<lambda>b w h. None),
       Paragraph_init = (\<lambda>t s. None),
       doc_build = (\<lambda>d s. Inr [0x25, 0x50, 0x44, 0x46]) \<rparr>"

text \<open>
  A stricter world, after two habits of ReportLab: the markup parser refuses a text that
  opens with a closing tag, and the layout engine refuses a story with an image higher than
  the page.
\<close>

definition strict_env ::
    "(string \<Rightarrow> exn + response) \<Rightarrow> (exn + json) \<Rightarrow> (bytes \<Rightarrow> exn + int \<times> int) \<Rightarrow> env" where
  "strict_env net body sizes =
     \<lparr> requests_get = (\<lambda>u ps. net u),
       response_json = (\<lambda>r. body),
       py_repr = (\<lambda>v. ''...''),
       ImageReader_getSize = sizes,
       Image_init = (\<lambda>b w h. None),
       Paragraph_init =
         (\<lambda>t s. if take 2 t = ''</'' then Some (ValueError ''Parse error: unexpected closing tag'')
                else None),
       doc_build =
         (\<lambda>d s. if list_ex (higher_than_page d) s
                then Inl (LayoutError ''Flowable too large on page'')
                else Inr [0x25, 0x50, 0x44, 0x46]) \<rparr>"

definition stop_feature :: "json \<Rightarrow> string \<Rightarrow> json" where
  "stop_feature c n =
     JObj [(''type'', JStr ''Feature''),
           (''properties'', JObj [(''code_stop'', c), (''name_fr'', JStr n)])]"

definition collection :: "json list \<Rightarrow> exn + json" where
  "collection fs = Inr (JObj [(''type'', JStr ''FeatureCollection''), (''features'', JArr fs)])"

definition photo_url :: string where
  "photo_url = ''https://data.mobility.brussels/media/photo.jpg''"

text \<open>A stop with no \<^verbatim>\<open>gid\<close> and an empty \<^verbatim>\<open>image_stop\<close>, with a code and a French name.\<close>

definition bare_stop :: "string \<Rightarrow> string \<Rightarrow> json" where
  "bare_stop c n =
     JObj [(''type'', JStr ''Feature''),
           (''properties'',
            JObj [(''code_stop'', JStr c), (''name_fr'', JStr n), (''image_stop'', JStr '''')])]"

section \<open>Facts about text\<close>

lemma strip_no_space:
  assumes "\<forall>c \<in> set s. \<not> is_space c"
  shows "strip s = s"
proof -
  have keep: "dropWhile is_space xs = xs" if "\<forall>c \<in> set xs. \<not> is_space c" for xs
    using that by (cases xs) simp_all
  have "dropWhile is_space s = s"
    using assms by (rule keep)
  moreover have "dropWhile is_space (rev s) = rev s"
    using assms by (intro keep) simp
  ultimately show ?thesis
    by (simp add: strip_def lstrip_def rstrip_def)
qed

lemma digit_char_not_space: "d < 10 \<Longrightarrow> \<not> is_space (digit_char d)"
proof -
  assume "d < 10"
  then have "d \<in> {0, 1, 2, 3, 4, 5, 6, 7, 8, 9}" by auto
  then show ?thesis
    by (auto simp: digit_char_def is_space_def)
qed

lemma dec_nat_no_space: "\<forall>c \<in> set (dec_nat n). \<not> is_space c"
proof (induction n rule: dec_nat.induct)
  case (1 n)
  show ?case
  proof (cases "n < 10")
    case True
    then show ?thesis
      by (subst dec_nat.simps) (simp add: digit_char_not_space)
  next
    case False
    then have "\<forall>c \<in> set (dec_nat (n div 10)). \<not> is_space c"
      using 1 by simp
    moreover have "\<not> is_space (digit_char (n mod 10))"
      by (simp add: digit_char_not_space)
    ultimately show ?thesis
      using False by (subst dec_nat.simps) simp
  qed
qed

lemma strip_dec_int: "strip (dec_int i) = dec_int i"
proof -
  have "\<not> is_space CHR ''-''"
    by (simp add: is_space_def)
  then have "\<forall>c \<in> set (dec_int i). \<not> is_space c"
    using dec_nat_no_space by (simp add: dec_int_def)
  then show ?thesis
    by (rule strip_no_space)
qed

lemma strip_scalar:
  "strip (py_str repr JNull) = py_str repr JNull"
  "strip (py_str repr (JBool b)) = py_str repr (JBool b)"
  "strip (py_str repr (JInt i)) = py_str repr (JInt i)"
  by (simp_all add: strip_dec_int) (simp_all add: strip_def lstrip_def rstrip_def is_space_def)

text \<open>What \<open>strip\<close> leaves is the text between the leading and the trailing whitespace.\<close>

lemma strip_decomposition:
  "\<exists>a b. s = a @ strip s @ b \<and> (\<forall>c \<in> set a. is_space c) \<and> (\<forall>c \<in> set b. is_space c)
     \<and> (strip s = [] \<or> \<not> is_space (hd (strip s)) \<and> \<not> is_space (last (strip s)))"
proof -
  define a where "a = takeWhile is_space s"
  define t where "t = dropWhile is_space s"
  define b where "b = rev (takeWhile is_space (rev t))"
  have s: "s = a @ t"
    by (simp add: a_def t_def)
  have "t = rev (dropWhile is_space (rev t)) @ rev (takeWhile is_space (rev t))"
    by (metis rev_append rev_rev_ident takeWhile_dropWhile_id)
  then have t: "t = strip s @ b"
    by (simp add: strip_def lstrip_def rstrip_def b_def t_def)
  have sa: "\<forall>c \<in> set a. is_space c"
    by (auto simp: a_def dest: set_takeWhileD)
  have sb: "\<forall>c \<in> set b. is_space c"
    by (auto simp: b_def dest: set_takeWhileD)
  have ends: "strip s = [] \<or> \<not> is_space (hd (strip s)) \<and> \<not> is_space (last (strip s))"
  proof (cases "strip s = []")
    case True
    then show ?thesis by simp
  next
    case False
    have ne: "dropWhile is_space (rev t) \<noteq> []"
      using False by (simp add: strip_def lstrip_def rstrip_def t_def)
    then have "\<not> is_space (hd (dropWhile is_space (rev t)))"
      by (rule hd_dropWhile)
    then have l: "\<not> is_space (last (strip s))"
      using ne by (simp add: strip_def lstrip_def rstrip_def t_def last_rev)
    have "t \<noteq> []" using False t by (metis append_is_Nil_conv)
    then have "\<not> is_space (hd t)"
      unfolding t_def by (rule hd_dropWhile)
    then have "\<not> is_space (hd (strip s))"
      using t False by (metis hd_append2)
    with l show ?thesis by simp
  qed
  from s t sa sb ends show ?thesis
    by (metis append.assoc)
qed

section \<open>Facts about the lookup\<close>

lemma wfs_features_sample:
  "wfs_features (sample_env (\<lambda>u. Inr (ok_response b)) (collection fs) sizes) = Inr fs"
  by (simp add: wfs_features_def sample_env_def ok_response_def collection_def raise_for_status_def
      py_get_def py_get_default_def dict_get_default_def py_iter_def py_or_def)

lemma code_matches_props:
  assumes "map_of fk ''properties'' = Some (JObj pk)"
  shows "code_matches env (JObj fk) code =
           Inr (strip (py_str (py_repr env) (dict_get_default pk ''code_stop'' (JStr ''''))) = strip code)"
  using assms
  by (cases pk) (simp_all add: code_matches_def feature_props_def py_get_def py_get_default_def
      dict_get_default_def py_or_def)

lemma code_matches_no_props:
  assumes "map_of fk ''properties'' = None"
  shows "code_matches env (JObj fk) code = Inr (strip code = [])"
  using assms
  by (auto simp add: code_matches_def feature_props_def py_get_def py_get_default_def
      dict_get_default_def py_or_def strip_def lstrip_def rstrip_def)

lemma scan_features_first:
  assumes "\<forall>p \<in> set pre. code_matches env p code = Inr False"
    and "code_matches env f code = Inr True"
  shows "scan_features env (pre @ f # rest) code = Inr (Some f)"
  using assms by (induction pre) simp_all

lemma scan_features_none:
  assumes "\<forall>f \<in> set fs. code_matches env f code = Inr False"
  shows "scan_features env fs code = Inr None"
  using assms by (induction fs) simp_all

lemma scan_features_found:
  assumes "scan_features env fs code = Inr (Some f)"
  shows "f \<in> set fs \<and> code_matches env f code = Inr True"
  using assms
  by (induction fs) (auto split: sum.splits bool.splits)

text \<open>
  C2. When the collection holds two (or more) features whose \<^verbatim>\<open>code_stop\<close> equals the
  requested code after trimming, the lookup returns the first of them in collection
  order: the features before it do not match, and whatever comes after it, a second
  match included, is never looked at.
\<close>

theorem resolve_returns_first_match:
  assumes "wfs_features env = Inr (pre @ f # mid @ g # post)"
    and "\<forall>p \<in> set pre. code_matches env p code = Inr False"
    and "code_matches env f code = Inr True"
    and "code_matches env g code = Inr True"
  shows "fetch_collecto_feature_by_code env code = (Inr (Some f), [WFS_URL])"
  using assms(1) scan_features_first [OF assms(2,3)]
  by (simp add: fetch_collecto_feature_by_code_def)

lemma sample_matches:
  "code_matches (sample_env net body sizes) (stop_feature (JStr s) n) code = Inr (strip s = strip code)"
  by (simp add: code_matches_props [where pk = "[(''code_stop'', JStr s), (''name_fr'', JStr n)]"]
      stop_feature_def dict_get_default_def sample_env_def)

theorem resolve_returns_first_match_witness:
  "fetch_collecto_feature_by_code
     (sample_env (\<lambda>u. Inr (ok_response []))
        (collection [stop_feature (JStr ''7'') ''a'', stop_feature (JStr '' 42'') ''b'',
                     stop_feature (JStr ''9'') ''c'', stop_feature (JStr ''42 '') ''d''])
        (\<lambda>b. Inr (1, 1)))
     ''42''
   = (Inr (Some (stop_feature (JStr '' 42'') ''b'')), [WFS_URL])"
proof -
  let ?env = "sample_env (\<lambda>u. Inr (ok_response []))
        (collection [stop_feature (JStr ''7'') ''a'', stop_feature (JStr '' 42'') ''b'',
                     stop_feature (JStr ''9'') ''c'', stop_feature (JStr ''42 '') ''d''])
        (\<lambda>b. Inr (1, 1))"
  have 1: "wfs_features ?env =
      Inr ([stop_feature (JStr ''7'') ''a''] @ stop_feature (JStr '' 42'') ''b''
           # [stop_feature (JStr ''9'') ''c''] @ stop_feature (JStr ''42 '') ''d'' # [])"
    by (simp add: wfs_features_sample)
  have 2: "\<forall>p \<in> set [stop_feature (JStr ''7'') ''a'']. code_matches ?env p ''42'' = Inr False"
    by (simp add: sample_matches strip_def lstrip_def rstrip_def is_space_def)
  have 3: "code_matches ?env (stop_feature (JStr '' 42'') ''b'') ''42'' = Inr True"
    by (simp add: sample_matches strip_def lstrip_def rstrip_def is_space_def)
  have 4: "code_matches ?env (stop_feature (JStr ''42 '') ''d'') ''42'' = Inr True"
    by (simp add: sample_matches strip_def lstrip_def rstrip_def is_space_def)
  show ?thesis
    by (rule resolve_returns_first_match [OF 1 2 3 4])
qed

text \<open>
  C3. A feature whose \<^verbatim>\<open>code_stop\<close> is the text \<open>s\<close> matches the requested code exactly
  when the two are equal after \<^verbatim>\<open>strip()\<close> on both sides, so the lookup over that one
  feature finds it exactly then. Case is kept: \<^verbatim>\<open>" ABC "\<close> matches \<^verbatim>\<open>"ABC"\<close> and
  \<^verbatim>\<open>"abc"\<close> does not.
\<close>

theorem code_match_trims_keeps_case:
  assumes "map_of fk ''properties'' = Some (JObj pk)"
    and "map_of pk ''code_stop'' = Some (JStr s)"
  shows "code_matches env (JObj fk) code = Inr (strip s = strip code)
     \<and> scan_features env [JObj fk] code = Inr (if strip s = strip code then Some (JObj fk) else None)
     \<and> strip '' ABC '' = strip ''ABC''
     \<and> strip ''abc'' \<noteq> strip ''ABC''"
proof -
  have m: "code_matches env (JObj fk) code = Inr (strip s = strip code)"
    using assms by (simp add: code_matches_props dict_get_default_def)
  have "strip '' ABC '' = strip ''ABC''" "strip ''abc'' \<noteq> strip ''ABC''"
    by (simp_all add: strip_def lstrip_def rstrip_def is_space_def)
  with m show ?thesis by simp
qed

theorem code_match_trims_keeps_case_witness:
  "code_matches (sample_env (\<lambda>u. Inr (ok_response [])) (collection []) (\<lambda>b. Inr (1, 1)))
      (stop_feature (JStr ''ABC'') ''a'') '' ABC '' = Inr True
   \<and> code_matches (sample_env (\<lambda>u. Inr (ok_response [])) (collection []) (\<lambda>b. Inr (1, 1)))
      (stop_feature (JStr ''ABC'') ''a'') ''abc'' = Inr False"
proof -
  have 1: "map_of [(''type'', JStr ''Feature''),
                   (''properties'', JObj [(''code_stop'', JStr ''ABC''), (''name_fr'', JStr ''a'')])]
              ''properties''
           = Some (JObj [(''code_stop'', JStr ''ABC''), (''name_fr'', JStr ''a'')])"
    by simp
  have 2: "map_of [(''code_stop'', JStr ''ABC''), (''name_fr'', JStr ''a'')] ''code_stop''
           = Some (JStr ''ABC'')"
    by simp
  show ?thesis
    using code_match_trims_keeps_case [OF 1 2, where code = "'' ABC ''"]
      code_match_trims_keeps_case [OF 1 2, where code = "''abc''"]
    by (simp add: stop_feature_def strip_def lstrip_def rstrip_def is_space_def)
qed

lemma code_matches_feature_props:
  assumes "feature_props f = Inr (JObj pk)"
  shows "code_matches env f code =
           Inr (strip (py_str (py_repr env) (dict_get_default pk ''code_stop'' (JStr ''''))) = strip code)"
  using assms by (simp add: code_matches_def py_get_default_def)

text \<open>
  C10. Both sides of the comparison go through \<^verbatim>\<open>str()\<close> before they are trimmed. A
  \<^verbatim>\<open>code_stop\<close> of any JSON value \<open>v\<close> is compared by its text \<^verbatim>\<open>str(v)\<close>; the number \<open>n\<close>
  matches the requested code whose trimmed form is the decimal numeral of \<open>n\<close>; and a
  feature with no \<^verbatim>\<open>code_stop\<close> is compared as the empty text, so it matches a requested
  code that trims to nothing.
\<close>

theorem code_match_coerces_to_text:
  assumes "feature_props f = Inr (JObj pk)"
  shows "(map_of pk ''code_stop'' = Some v \<longrightarrow>
            code_matches env f code = Inr (strip (py_str (py_repr env) v) = strip code))
     \<and> (map_of pk ''code_stop'' = Some (JInt n) \<longrightarrow>
            code_matches env f code = Inr (dec_int n = strip code))
     \<and> (map_of pk ''code_stop'' = Some (JBool b) \<longrightarrow>
            code_matches env f code = Inr ((if b then ''True'' else ''False'') = strip code))
     \<and> (map_of pk ''code_stop'' = Some JNull \<longrightarrow>
            code_matches env f code = Inr (''None'' = strip code))
     \<and> (map_of pk ''code_stop'' = None \<longrightarrow>
            code_matches env f code = Inr (strip code = ''''))"
proof -
  have "strip '''' = ''''"
    by (simp add: strip_def lstrip_def rstrip_def)
  moreover have "strip ''None'' = ''None''"
    using strip_scalar(1) [of "py_repr env"] by simp
  moreover have "strip (if b then ''True'' else ''False'') = (if b then ''True'' else ''False'')"
    using strip_scalar(2) [of "py_repr env" b] by simp
  ultimately show ?thesis
    by (auto simp add: code_matches_feature_props [OF assms] dict_get_default_def strip_dec_int)
qed

theorem code_match_coerces_to_text_witness:
  "code_matches (sample_env (\<lambda>u. Inr (ok_response [])) (collection []) (\<lambda>b. Inr (1, 1)))
      (stop_feature (JInt 42) ''a'') ''42'' = Inr True
   \<and> code_matches (sample_env (\<lambda>u. Inr (ok_response [])) (collection []) (\<lambda>b. Inr (1, 1)))
      (JObj [(''type'', JStr ''Feature''), (''properties'', JObj [(''name_fr'', JStr ''a'')])]) ''  ''
      = Inr True"
proof -
  have 1: "feature_props (stop_feature (JInt 42) ''a'')
             = Inr (JObj [(''code_stop'', JInt 42), (''name_fr'', JStr ''a'')])"
    by (simp add: feature_props_def stop_feature_def py_get_def py_get_default_def
        dict_get_default_def py_or_def)
  have 2: "feature_props (JObj [(''type'', JStr ''Feature''), (''properties'', JObj [(''name_fr'', JStr ''a'')])])
             = Inr (JObj [(''name_fr'', JStr ''a'')])"
    by (simp add: feature_props_def py_get_def py_get_default_def dict_get_default_def py_or_def)
  have 3: "dec_int 42 = strip ''42''" "strip ''  '' = ''''"
    by (simp_all add: dec_int_def dec_nat.simps digit_char_def strip_def lstrip_def rstrip_def
        is_space_def)
  show ?thesis
    using code_match_coerces_to_text [OF 1, where n = 42 and code = "''42''"]
      code_match_coerces_to_text [OF 2, where code = "''  ''"] 3
    by simp
qed

section \<open>Facts about floats\<close>







section \<open>Facts about the composer\<close>

lemma first_target_width:
  "fmul (usable_width (collecto_doc env props)) FIRST_IMAGE_WIDTH_RATIO
     = Fin 8477494377309129 (- 44)"
  by (simp add: usable_width_def collecto_doc_def) code_simp

lemma second_target_width:
  "fmul (usable_width (collecto_doc env props)) SECOND_IMAGE_WIDTH_RATIO
     = Fin 5595146289024025 (- 44)"
  by (simp add: usable_width_def collecto_doc_def) code_simp

lemma placeholder_heights:
  "FIRST_IMAGE_PLACEHOLDER_HEIGHT = Fin 3989409118733707 (- 44)"
  "SECOND_IMAGE_PLACEHOLDER_HEIGHT = Fin 374007104881285 (- 41)"
  by code_simp+


lemma undecodable_raises:
  assumes "undecodable env b"
  shows "\<exists>e. scaled_image_flowable env b w = Inl e"
  using assms
  by (auto simp add: undecodable_def scaled_image_flowable_def split: sum.splits prod.splits)

lemma first_image_block_placeholder:
  assumes "unusable env img1"
  shows "first_image_block env (collecto_doc env props) img1 =
           Table [[''Map image unavailable'']] [Fin 8477494377309129 (- 44)]
             [Fin 3989409118733707 (- 44)]
             [BACKGROUND ''lightgrey'', BOX 1 ''grey'', VALIGN ''MIDDLE'', ALIGN ''CENTER'',
              TEXTCOLOR ''darkgray'', FONTSIZE 11]"
proof (cases img1)
  case None
  then show ?thesis
    by (simp add: first_image_block_def first_target_width placeholder_heights placeholder_box_def)
next
  case (Some b)
  show ?thesis
  proof (cases "b = []")
    case True
    with Some show ?thesis
      by (simp add: first_image_block_def first_target_width placeholder_heights
          placeholder_box_def)
  next
    case False
    with Some assms have "undecodable env b"
      by (simp add: unusable_def)
    then obtain e where "scaled_image_flowable env b (Fin 8477494377309129 (- 44)) = Inl e"
      using undecodable_raises by blast
    with Some False show ?thesis
      by (simp add: first_image_block_def first_target_width placeholder_heights
          placeholder_box_def)
  qed
qed

lemma second_image_block_placeholder:
  assumes "unusable env img2"
  shows "second_image_block env (collecto_doc env props) img2 =
           Table [[''Stop photo unavailable'']] [Fin 5595146289024025 (- 44)]
             [Fin 374007104881285 (- 41)]
             [BACKGROUND ''lightgrey'', BOX 1 ''grey'', VALIGN ''MIDDLE'', ALIGN ''CENTER'',
              TEXTCOLOR ''darkgray'', FONTSIZE 11]"
proof (cases img2)
  case None
  then show ?thesis
    by (simp add: second_image_block_def second_target_width placeholder_heights
        placeholder_box_def)
next
  case (Some b)
  show ?thesis
  proof (cases "b = []")
    case True
    with Some show ?thesis
      by (simp add: second_image_block_def second_target_width placeholder_heights
          placeholder_box_def)
  next
    case False
    with Some assms have "undecodable env b"
      by (simp add: unusable_def)
    then obtain e where "scaled_image_flowable env b (Fin 5595146289024025 (- 44)) = Inl e"
      using undecodable_raises by blast
    with Some False show ?thesis
      by (simp add: second_image_block_def second_target_width placeholder_heights
          placeholder_box_def)
  qed
qed



lemma image_block_empty:
  "first_image_block env doc (Some []) = first_image_block env doc None"
  "second_image_block env doc (Some []) = second_image_block env doc None"
  by (simp_all add: first_image_block_def second_image_block_def)

lemma build_story_empty:
  "build_story env props (Some []) img2 = build_story env props None img2"
  "build_story env props img1 (Some []) = build_story env props img1 None"
  unfolding build_story_def image_block_empty by (rule refl)+




lemma build_story_returns:
  assumes "\<forall>t s. Paragraph_init env t s = None"
  shows "\<exists>story. build_story env props img1 img2 = Inr story"
  using assms by (simp add: build_story_def Let_def new_paragraph_def)







section \<open>Facts about the image fetcher\<close>

text \<open>
  A successful answer with an empty body is not turned into an absent image: the fetcher
  returns the empty byte string.
\<close>

theorem empty_body_is_returned:
  "fst (download_image
          (sample_env (\<lambda>u. Inr (ok_response [])) (collection []) (\<lambda>b. Inr (1, 1))) photo_url)
   = Some []"
  by (simp add: download_image_def sample_env_def ok_response_def raise_for_status_def)

text \<open>
  C6, as the code has it. The fetcher makes one request and never raises: its result is
  absent exactly when \<^verbatim>\<open>requests.get\<close> raises (timeout, connection error) or the status
  is one \<^verbatim>\<open>raise_for_status\<close> rejects, and otherwise it is the body of the response, empty
  or not. The composer then treats an empty buffer exactly as an absent one.
\<close>

theorem download_image_absent_on_failure:
  "(fst (download_image env u) = None \<longleftrightarrow>
      (\<exists>e. requests_get env u [] = Inl e)
      \<or> (\<exists>r e. requests_get env u [] = Inr r \<and> raise_for_status r = Some e))
   \<and> (requests_get env u [] = Inr r \<and> raise_for_status r = None \<longrightarrow>
        fst (download_image env u) = Some (content r))
   \<and> snd (download_image env u) = [u]
   \<and> build_story env props (Some []) img2 = build_story env props None img2
   \<and> build_story env props img1 (Some []) = build_story env props img1 None"
  by (auto simp add: download_image_def build_story_empty split: sum.splits option.splits)

theorem download_image_absent_on_failure_witness:
  "fst (download_image
          (sample_env (\<lambda>u. Inr (ok_response [0xFF, 0xD8])) (collection []) (\<lambda>b. Inr (1, 1)))
          photo_url)
   = Some [0xFF, 0xD8]
   \<and> fst (download_image
          (sample_env (\<lambda>u. Inl (ConnectionError ''Connection refused'')) (collection [])
             (\<lambda>b. Inr (1, 1)))
          photo_url)
   = None"
proof -
  let ?up = "sample_env (\<lambda>u. Inr (ok_response [0xFF, 0xD8])) (collection []) (\<lambda>b. Inr (1, 1))"
  let ?down = "sample_env (\<lambda>u. Inl (ConnectionError ''Connection refused'')) (collection [])
             (\<lambda>b. Inr (1, 1))"
  have 1: "requests_get ?up photo_url [] = Inr (ok_response [0xFF, 0xD8])
           \<and> raise_for_status (ok_response [0xFF, 0xD8]) = None"
    by (simp add: sample_env_def ok_response_def raise_for_status_def)
  have 2: "(\<exists>e. requests_get ?down photo_url [] = Inl e)
      \<or> (\<exists>r e. requests_get ?down photo_url [] = Inr r \<and> raise_for_status r = Some e)"
    by (simp add: sample_env_def)
  show ?thesis
    using download_image_absent_on_failure [of ?up photo_url "ok_response [0xFF, 0xD8]"] 1
      download_image_absent_on_failure [of ?down photo_url] 2
    by (simp add: ok_response_def)
qed

section \<open>Facts about the view\<close>

text \<open>
  C5. When the query succeeds and no feature of the collection matches the requested
  code (the collection may be empty), the view answers with the not-found response, which
  carries a message and no PDF bytes, after the one request to the feature service.
\<close>

theorem no_match_is_not_found:
  assumes "wfs_features env = Inr fs"
    and "\<forall>f \<in> set fs. code_matches env f stop = Inr False"
  shows "info env \<lparr>request_method = ''GET''\<rparr> stop =
           (Inr (HttpResponseNotFound
                   (''Collecto stop with code_stop='' @ [CHR 0x27] @ stop @ [CHR 0x27]
                    @ '' not found in the dataset.'')),
            [WFS_URL])"
  using assms(1) scan_features_none [OF assms(2)]
  by (simp add: info_def fetch_collecto_feature_by_code_def not_found_response_def quote_def)

theorem no_match_is_not_found_witness:
  "info (sample_env (\<lambda>u. Inr (ok_response []))
           (collection [stop_feature (JStr ''7'') ''a'', stop_feature (JInt 42) ''b''])
           (\<lambda>b. Inr (1, 1)))
     \<lparr>request_method = ''GET''\<rparr> ''99''
   = (Inr (HttpResponseNotFound
             (''Collecto stop with code_stop='' @ [CHR 0x27] @ ''99'' @ [CHR 0x27]
              @ '' not found in the dataset.'')),
      [WFS_URL])
   \<and> info (sample_env (\<lambda>u. Inr (ok_response [])) (collection []) (\<lambda>b. Inr (1, 1)))
     \<lparr>request_method = ''GET''\<rparr> ''99''
   = (Inr (HttpResponseNotFound
             (''Collecto stop with code_stop='' @ [CHR 0x27] @ ''99'' @ [CHR 0x27]
              @ '' not found in the dataset.'')),
      [WFS_URL])"
proof -
  let ?env = "sample_env (\<lambda>u. Inr (ok_response []))
           (collection [stop_feature (JStr ''7'') ''a'', stop_feature (JInt 42) ''b''])
           (\<lambda>b. Inr (1, 1))"
  let ?none = "sample_env (\<lambda>u. Inr (ok_response [])) (collection []) (\<lambda>b. Inr (1, 1))"
  have 1: "wfs_features ?env = Inr [stop_feature (JStr ''7'') ''a'', stop_feature (JInt 42) ''b'']"
    by (simp add: wfs_features_sample)
  have "code_matches ?env (stop_feature (JStr ''7'') ''a'') ''99'' = Inr False"
    by (simp add: sample_matches strip_def lstrip_def rstrip_def is_space_def)
  moreover have "code_matches ?env (stop_feature (JInt 42) ''b'') ''99'' = Inr False"
    by (simp add: code_matches_def feature_props_def stop_feature_def py_get_def py_get_default_def
        dict_get_default_def py_or_def strip_def lstrip_def rstrip_def is_space_def
        dec_int_def dec_nat.simps digit_char_def)
  ultimately have 2: "\<forall>f \<in> set [stop_feature (JStr ''7'') ''a'', stop_feature (JInt 42) ''b''].
             code_matches ?env f ''99'' = Inr False"
    by simp
  have 3: "wfs_features ?none = Inr []"
    by (simp add: wfs_features_sample)
  have 4: "\<forall>f \<in> set []. code_matches ?none f ''99'' = Inr False"
    by simp
  show ?thesis
    using no_match_is_not_found [OF 1 2] no_match_is_not_found [OF 3 4] by simp
qed

lemma wfs_features_failure:
  assumes "requests_get env WFS_URL wfs_params = Inl e
     \<or> (\<exists>r. requests_get env WFS_URL wfs_params = Inr r
            \<and> (raise_for_status r = Some e
                \<or> raise_for_status r = None \<and> response_json env r = Inl e))"
  shows "wfs_features env = Inl e"
  using assms by (auto simp add: wfs_features_def)

text \<open>
  C4. When the query to the feature service fails in transport (\<^verbatim>\<open>requests.get\<close> raises, as
  for a connection error or a timeout; the status is one \<^verbatim>\<open>raise_for_status\<close> rejects; or
  the body does not decode), the lookup raises that exception instead of returning, and the
  view turns it into a server error whose text names the cause. The answer is never the
  not-found response.
\<close>

theorem query_failure_is_server_error:
  assumes "requests_get env WFS_URL wfs_params = Inl e
     \<or> (\<exists>r. requests_get env WFS_URL wfs_params = Inr r
            \<and> (raise_for_status r = Some e
                \<or> raise_for_status r = None \<and> response_json env r = Inl e))"
  shows "fetch_collecto_feature_by_code env stop = (Inl e, [WFS_URL])
     \<and> info env \<lparr>request_method = ''GET''\<rparr> stop =
         (Inr (HttpResponseServerError
                 ((case e of HTTPError m \<Rightarrow> ''WFS error: '' | _ \<Rightarrow> ''Could not query WFS: '')
                  @ exn_msg e)),
          [WFS_URL])"
proof -
  have f: "fetch_collecto_feature_by_code env stop = (Inl e, [WFS_URL])"
    using wfs_features_failure [OF assms] by (simp add: fetch_collecto_feature_by_code_def)
  have "wfs_error_response e =
          HttpResponseServerError
            ((case e of HTTPError m \<Rightarrow> ''WFS error: '' | _ \<Rightarrow> ''Could not query WFS: '')
             @ exn_msg e)"
    by (cases e) (simp_all add: wfs_error_response_def)
  with f show ?thesis
    by (simp add: info_def)
qed

theorem query_failure_is_server_error_witness:
  "info (sample_env (\<lambda>u. Inl (Timeout ''Read timed out.'')) (collection []) (\<lambda>b. Inr (1, 1)))
     \<lparr>request_method = ''GET''\<rparr> ''42''
   = (Inr (HttpResponseServerError ''Could not query WFS: Read timed out.''), [WFS_URL])
   \<and> info (sample_env
             (\<lambda>u. Inr \<lparr>status_code = 503, reason = ''Service Unavailable'', url = u, content = []\<rparr>)
             (collection []) (\<lambda>b. Inr (1, 1)))
     \<lparr>request_method = ''GET''\<rparr> ''42''
   = (Inr (HttpResponseServerError
             (''WFS error: 503 Server Error: Service Unavailable for url: '' @ WFS_URL)),
      [WFS_URL])
   \<and> info (sample_env (\<lambda>u. Inr (ok_response [0x3C])) (Inl (JSONDecodeError ''Expecting value''))
             (\<lambda>b. Inr (1, 1)))
     \<lparr>request_method = ''GET''\<rparr> ''42''
   = (Inr (HttpResponseServerError ''Could not query WFS: Expecting value''), [WFS_URL])"
proof -
  let ?e1 = "sample_env (\<lambda>u. Inl (Timeout ''Read timed out.'')) (collection []) (\<lambda>b. Inr (1, 1))"
  let ?r = "\<lparr>status_code = 503, reason = ''Service Unavailable'', url = WFS_URL, content = []\<rparr>"
  let ?e2 = "sample_env
             (\<lambda>u. Inr \<lparr>status_code = 503, reason = ''Service Unavailable'', url = u, content = []\<rparr>)
             (collection []) (\<lambda>b. Inr (1, 1))"
  let ?e3 = "sample_env (\<lambda>u. Inr (ok_response [0x3C])) (Inl (JSONDecodeError ''Expecting value''))
             (\<lambda>b. Inr (1, 1))"
  have 1: "requests_get ?e1 WFS_URL wfs_params = Inl (Timeout ''Read timed out.'')
     \<or> (\<exists>r. requests_get ?e1 WFS_URL wfs_params = Inr r
            \<and> (raise_for_status r = Some (Timeout ''Read timed out.'')
                \<or> raise_for_status r = None \<and> response_json ?e1 r = Inl (Timeout ''Read timed out.'')))"
    by (simp add: sample_env_def)
  have "raise_for_status ?r
          = Some (HTTPError (''503 Server Error: Service Unavailable for url: '' @ WFS_URL))"
    by (simp add: raise_for_status_def dec_nat.simps digit_char_def)
  then have 2: "requests_get ?e2 WFS_URL wfs_params
        = Inl (HTTPError (''503 Server Error: Service Unavailable for url: '' @ WFS_URL))
     \<or> (\<exists>r. requests_get ?e2 WFS_URL wfs_params = Inr r
            \<and> (raise_for_status r
                  = Some (HTTPError (''503 Server Error: Service Unavailable for url: '' @ WFS_URL))
                \<or> raise_for_status r = None
                  \<and> response_json ?e2 r
                      = Inl (HTTPError (''503 Server Error: Service Unavailable for url: '' @ WFS_URL))))"
    by (simp add: sample_env_def)
  have 3: "requests_get ?e3 WFS_URL wfs_params = Inl (JSONDecodeError ''Expecting value'')
     \<or> (\<exists>r. requests_get ?e3 WFS_URL wfs_params = Inr r
            \<and> (raise_for_status r = Some (JSONDecodeError ''Expecting value'')
                \<or> raise_for_status r = None
                  \<and> response_json ?e3 r = Inl (JSONDecodeError ''Expecting value'')))"
    by (simp add: sample_env_def ok_response_def raise_for_status_def)
  show ?thesis
    using query_failure_is_server_error [OF 1, of "''42''"]
      query_failure_is_server_error [OF 2, of "''42''"]
      query_failure_is_server_error [OF 3, of "''42''"]
    by simp
qed

text \<open>
  The same holds for every exception the lookup raises, also one caused by a body that
  decodes to JSON of an unexpected shape.
\<close>

lemma lookup_exception_is_server_error:
  assumes "fst (fetch_collecto_feature_by_code env stop) = Inl e"
  shows "\<exists>msg. info env \<lparr>request_method = ''GET''\<rparr> stop
                 = (Inr (HttpResponseServerError msg), [WFS_URL])"
proof -
  have "fetch_collecto_feature_by_code env stop = (Inl e, [WFS_URL])"
    using assms by (simp add: fetch_collecto_feature_by_code_def)
  moreover have "\<exists>msg. wfs_error_response e = HttpResponseServerError msg"
    by (cases e) (simp_all add: wfs_error_response_def)
  ultimately show ?thesis
    by (auto simp add: info_def)
qed

lemma feature_props_dict:
  assumes "feature_props f = Inr (JObj pk)" and "pk \<noteq> []"
  shows "truthy f"
  using assms
  by (cases f)
    (auto simp add: feature_props_def py_get_def py_get_default_def dict_get_default_def py_or_def
      split: option.splits if_splits)

lemma build_story_no_images:
  assumes "build_story env pk None None = Inr story"
  shows "filter is_placeholder story =
           [Table [[''Map image unavailable'']] [Fin 8477494377309129 (- 44)]
              [Fin 3989409118733707 (- 44)]
              [BACKGROUND ''lightgrey'', BOX 1 ''grey'', VALIGN ''MIDDLE'', ALIGN ''CENTER'',
               TEXTCOLOR ''darkgray'', FONTSIZE 11],
            Table [[''Stop photo unavailable'']] [Fin 5595146289024025 (- 44)]
              [Fin 374007104881285 (- 41)]
              [BACKGROUND ''lightgrey'', BOX 1 ''grey'', VALIGN ''MIDDLE'', ALIGN ''CENTER'',
               TEXTCOLOR ''darkgray'', FONTSIZE 11]]
         \<and> \<not> list_ex contains_image story"
proof -
  have u: "unusable env None"
    by (simp add: unusable_def)
  show ?thesis
    using assms
    by (auto simp add: build_story_def Let_def new_paragraph_def
        first_image_block_placeholder [OF u] second_image_block_placeholder [OF u]
        split: sum.splits option.splits)
qed

lemma bad_header_content_disposition:
  "bad_header (content_disposition (''collecto_'' @ c @ ''.pdf''))
     \<longleftrightarrow> CHR 0x0A \<in> set c \<or> CHR 0x0D \<in> set c"
  by (auto simp add: bad_header_def content_disposition_def)

lemma render_bare_feature:
  assumes "feature_props f = Inr (JObj pk)"
    and "map_of pk ''gid'' = None"
    and "map_of pk ''image_stop'' = Some (JStr '''')"
  shows "render_feature env stop f =
      ((case build_pdf env (JObj pk) None None of
          Inl e \<Rightarrow> Inr (HttpResponseServerError (''Failed to generate PDF: '' @ exn_msg e))
        | Inr pdf \<Rightarrow>
            set_content_disposition env pdf
              (content_disposition
                 (''collecto_''
                  @ py_str (py_repr env) (dict_get_default pk ''code_stop'' (JStr stop))
                  @ ''.pdf''))), [])"
  using assms
  by (simp add: render_feature_def py_get_def py_get_default_def dict_get_default_def
      split: sum.splits)

text \<open>
  C8, as the code has it. When the lookup finds a feature whose properties have no
  \<^verbatim>\<open>gid\<close> and an empty \<^verbatim>\<open>image_stop\<close>, the view requests nothing but the feature collection.
  The story it builds has no image and exactly two placeholder boxes, labelled
  "Map image unavailable" and "Stop photo unavailable", in this order. When \<^verbatim>\<open>doc.build\<close>
  renders this story and the code has no line break, the view returns the rendered
  document; when composing raises, it answers with a server error.
\<close>

theorem no_images_two_placeholders:
  assumes "fst (fetch_collecto_feature_by_code env stop) = Inr (Some f)"
    and "feature_props f = Inr (JObj pk)"
    and "map_of pk ''gid'' = None"
    and "map_of pk ''image_stop'' = Some (JStr '''')"
  shows "snd (info env \<lparr>request_method = ''GET''\<rparr> stop) = [WFS_URL]
     \<and> (build_story env pk None None = Inr story \<longrightarrow>
          filter is_placeholder story =
            [Table [[''Map image unavailable'']] [Fin 8477494377309129 (- 44)]
               [Fin 3989409118733707 (- 44)]
               [BACKGROUND ''lightgrey'', BOX 1 ''grey'', VALIGN ''MIDDLE'', ALIGN ''CENTER'',
                TEXTCOLOR ''darkgray'', FONTSIZE 11],
             Table [[''Stop photo unavailable'']] [Fin 5595146289024025 (- 44)]
               [Fin 374007104881285 (- 41)]
               [BACKGROUND ''lightgrey'', BOX 1 ''grey'', VALIGN ''MIDDLE'', ALIGN ''CENTER'',
                TEXTCOLOR ''darkgray'', FONTSIZE 11]]
          \<and> \<not> list_ex contains_image story
          \<and> (doc_build env (collecto_doc env pk) story = Inr pdf
              \<and> CHR 0x0A \<notin> set (py_str (py_repr env) (dict_get_default pk ''code_stop'' (JStr stop)))
              \<and> CHR 0x0D \<notin> set (py_str (py_repr env) (dict_get_default pk ''code_stop'' (JStr stop)))
              \<longrightarrow>
              fst (info env \<lparr>request_method = ''GET''\<rparr> stop) =
                Inr (HttpResponse pdf ''application/pdf''
                       (''inline; filename='' @ [CHR 0x22] @ ''collecto_''
                        @ py_str (py_repr env) (dict_get_default pk ''code_stop'' (JStr stop))
                        @ ''.pdf'' @ [CHR 0x22]))))
     \<and> (build_pdf env (JObj pk) None None = Inl e \<longrightarrow>
          fst (info env \<lparr>request_method = ''GET''\<rparr> stop) =
            Inr (HttpResponseServerError (''Failed to generate PDF: '' @ exn_msg e)))"
proof -
  have "pk \<noteq> []"
    using assms(4) by auto
  then have t: "truthy f"
    using assms(2) by (rule feature_props_dict [rotated])
  have f: "fetch_collecto_feature_by_code env stop = (Inr (Some f), [WFS_URL])"
    using assms(1) by (simp add: fetch_collecto_feature_by_code_def)
  note r = render_bare_feature [OF assms(2,3,4), of env stop]
  have i: "info env \<lparr>request_method = ''GET''\<rparr> stop =
      (fst (render_feature env stop f), [WFS_URL] @ snd (render_feature env stop f))"
    using f t by (simp add: info_def split: prod.splits)
  have 1: "snd (info env \<lparr>request_method = ''GET''\<rparr> stop) = [WFS_URL]"
    unfolding i r by simp
  have 3: "fst (info env \<lparr>request_method = ''GET''\<rparr> stop) =
            Inr (HttpResponseServerError (''Failed to generate PDF: '' @ exn_msg e))"
    if "build_pdf env (JObj pk) None None = Inl e"
    unfolding i r using that by simp
  have 2: "fst (info env \<lparr>request_method = ''GET''\<rparr> stop) =
                Inr (HttpResponse pdf ''application/pdf''
                       (''inline; filename='' @ [CHR 0x22] @ ''collecto_''
                        @ py_str (py_repr env) (dict_get_default pk ''code_stop'' (JStr stop))
                        @ ''.pdf'' @ [CHR 0x22]))"
    if s: "build_story env pk None None = Inr story"
      and d: "doc_build env (collecto_doc env pk) story = Inr pdf"
      and n: "CHR 0x0A \<notin> set (py_str (py_repr env) (dict_get_default pk ''code_stop'' (JStr stop)))"
        "CHR 0x0D \<notin> set (py_str (py_repr env) (dict_get_default pk ''code_stop'' (JStr stop)))"
  proof -
    have b: "build_pdf env (JObj pk) None None = Inr pdf"
      using s d by (simp add: build_pdf_def)
    have h: "\<not> bad_header (content_disposition (''collecto_''
                  @ py_str (py_repr env) (dict_get_default pk ''code_stop'' (JStr stop))
                  @ ''.pdf''))"
      using n by (simp add: bad_header_def content_disposition_def)
    show ?thesis
      unfolding i r b using h
      by (simp add: set_content_disposition_def content_disposition_def)
  qed
  from 1 2 3 build_story_no_images [of env pk story] show ?thesis
    by blast
qed

lemma bare_stop_props:
  "feature_props (bare_stop c n) =
     Inr (JObj [(''code_stop'', JStr c), (''name_fr'', JStr n), (''image_stop'', JStr '''')])"
  by (simp add: bare_stop_def feature_props_def py_get_def py_get_default_def
      dict_get_default_def py_or_def)

lemma bare_stop_found:
  assumes "strip c = strip stop"
    and "wfs_features env = Inr [bare_stop c n]"
  shows "fst (fetch_collecto_feature_by_code env stop) = Inr (Some (bare_stop c n))"
proof -
  have "code_matches env (bare_stop c n) stop = Inr True"
    using assms(1) by (simp add: code_matches_feature_props [OF bare_stop_props] dict_get_default_def)
  then show ?thesis
    using assms(2) by (simp add: fetch_collecto_feature_by_code_def)
qed

lemma wfs_features_strict:
  "wfs_features (strict_env (\<lambda>u. Inr (ok_response b)) (collection fs) sizes) = Inr fs"
  by (simp add: wfs_features_def strict_env_def ok_response_def collection_def raise_for_status_def
      py_get_def py_get_default_def dict_get_default_def py_iter_def py_or_def)

theorem no_images_two_placeholders_witness:
  "info (sample_env (\<lambda>u. Inr (ok_response [])) (collection [bare_stop ''42'' ''Gare''])
           (\<lambda>b. Inr (1, 1)))
     \<lparr>request_method = ''GET''\<rparr> ''42''
   = (Inr (HttpResponse [0x25, 0x50, 0x44, 0x46] ''application/pdf''
             (''inline; filename='' @ [CHR 0x22] @ ''collecto_42.pdf'' @ [CHR 0x22])),
      [WFS_URL])"
proof -
  let ?env = "sample_env (\<lambda>u. Inr (ok_response [])) (collection [bare_stop ''42'' ''Gare''])
           (\<lambda>b. Inr (1, 1))"
  let ?pk = "[(''code_stop'', JStr ''42''), (''name_fr'', JStr ''Gare''), (''image_stop'', JStr '''')]"
  have 1: "fst (fetch_collecto_feature_by_code ?env ''42'') = Inr (Some (bare_stop ''42'' ''Gare''))"
    by (rule bare_stop_found) (simp_all add: wfs_features_sample)
  have 3: "map_of ?pk ''gid'' = None"
    by simp
  have 4: "map_of ?pk ''image_stop'' = Some (JStr '''')"
    by simp
  have "\<forall>t s. Paragraph_init ?env t s = None"
    by (simp add: sample_env_def)
  then obtain story where s: "build_story ?env ?pk None None = Inr story"
    using build_story_returns by blast
  have d: "doc_build ?env (collecto_doc ?env ?pk) story = Inr [0x25, 0x50, 0x44, 0x46]"
    by (simp add: sample_env_def)
  have c: "py_str (py_repr ?env) (dict_get_default ?pk ''code_stop'' (JStr ''42'')) = ''42''"
    by (simp add: dict_get_default_def)
  have "info ?env \<lparr>request_method = ''GET''\<rparr> ''42''
        = (fst (info ?env \<lparr>request_method = ''GET''\<rparr> ''42''),
           snd (info ?env \<lparr>request_method = ''GET''\<rparr> ''42''))"
    by simp
  then show ?thesis
    using no_images_two_placeholders [OF 1 bare_stop_props 3 4, of story "[0x25, 0x50, 0x44, 0x46]"]
      s d
    by (simp add: c)
qed

text \<open>
  A resolved stop with no \<^verbatim>\<open>gid\<close> and an empty \<^verbatim>\<open>image_stop\<close> for which no document comes
  back: its French name opens with a closing tag, the paragraph constructor raises, and
  the view answers with a server error.
\<close>

theorem markup_in_name_is_server_error:
  "info (strict_env (\<lambda>u. Inr (ok_response [])) (collection [bare_stop ''42'' ''</b>''])
           (\<lambda>b. Inr (1, 1)))
     \<lparr>request_method = ''GET''\<rparr> ''42''
   = (Inr (HttpResponseServerError
             ''Failed to generate PDF: Parse error: unexpected closing tag''),
      [WFS_URL])"
proof -
  let ?env = "strict_env (\<lambda>u. Inr (ok_response [])) (collection [bare_stop ''42'' ''</b>''])
           (\<lambda>b. Inr (1, 1))"
  let ?pk = "[(''code_stop'', JStr ''42''), (''name_fr'', JStr ''</b>''), (''image_stop'', JStr '''')]"
  have 1: "fst (fetch_collecto_feature_by_code ?env ''42'') = Inr (Some (bare_stop ''42'' ''</b>''))"
    by (rule bare_stop_found) (simp_all add: wfs_features_strict)
  have f: "fetch_collecto_feature_by_code ?env ''42'' = (Inr (Some (bare_stop ''42'' ''</b>'')), [WFS_URL])"
    using 1 by (simp add: fetch_collecto_feature_by_code_def)
  have t: "truthy (bare_stop ''42'' ''</b>'')"
    by (simp add: bare_stop_def)
  have p: "Paragraph_init ?env t s =
      (if take 2 t = ''</'' then Some (ValueError ''Parse error: unexpected closing tag'') else None)"
    for t s
    by (simp add: strict_env_def)
  have b: "build_pdf ?env (JObj ?pk) None None
             = Inl (ValueError ''Parse error: unexpected closing tag'')"
    by (simp add: build_pdf_def build_story_def Let_def new_paragraph_def p dict_get_default_def)
  have r: "render_feature ?env ''42'' (bare_stop ''42'' ''</b>'')
      = (Inr (HttpResponseServerError
                ''Failed to generate PDF: Parse error: unexpected closing tag''), [])"
    by (simp add: render_bare_feature [OF bare_stop_props] b)
  show ?thesis
    using f t by (simp add: info_def r)
qed

text \<open>
  The statement after the \<^verbatim>\<open>try\<close> can raise too: a code that ends in a line feed matches
  after trimming, and setting the header then raises \<^verbatim>\<open>BadHeaderError\<close>, which leaves the view.
\<close>

lemma newline_in_code_raises:
  "\<exists>m. fst (info (sample_env (\<lambda>u. Inr (ok_response []))
                     (collection [bare_stop (''42'' @ [CHR 0x0A]) ''Gare''])
                     (\<lambda>b. Inr (1, 1)))
              \<lparr>request_method = ''GET''\<rparr> ''42'')
        = Inl (BadHeaderError m)"
proof -
  let ?env = "sample_env (\<lambda>u. Inr (ok_response []))
                     (collection [bare_stop (''42'' @ [CHR 0x0A]) ''Gare''])
                     (\<lambda>b. Inr (1, 1))"
  let ?f = "bare_stop (''42'' @ [CHR 0x0A]) ''Gare''"
  let ?pk = "[(''code_stop'', JStr (''42'' @ [CHR 0x0A])), (''name_fr'', JStr ''Gare''),
              (''image_stop'', JStr '''')]"
  have "strip (''42'' @ [CHR 0x0A]) = strip ''42''"
    by (simp add: strip_def lstrip_def rstrip_def is_space_def)
  then have 1: "fst (fetch_collecto_feature_by_code ?env ''42'') = Inr (Some ?f)"
    by (rule bare_stop_found) (simp add: wfs_features_sample)
  have f: "fetch_collecto_feature_by_code ?env ''42'' = (Inr (Some ?f), [WFS_URL])"
    using 1 by (simp add: fetch_collecto_feature_by_code_def)
  have t: "truthy ?f"
    by (simp add: bare_stop_def)
  have b: "build_pdf ?env (JObj ?pk) None None = Inr [0x25, 0x50, 0x44, 0x46]"
    by (simp add: build_pdf_def build_story_def Let_def new_paragraph_def sample_env_def)
  have "\<exists>m. fst (render_feature ?env ''42'' ?f) = Inl (BadHeaderError m)"
    using b
    by (simp add: render_bare_feature [OF bare_stop_props] set_content_disposition_def
        bad_header_def content_disposition_def dict_get_default_def)
  then show ?thesis
    using f t by (auto simp add: info_def split: prod.splits)
qed

end
